theory Spec2Isabelle
  imports Complex_Main "HOL-Library.AList"
begin

section \<open>Instants, dates and times of day\<close>

text \<open>
  A timestamp of the source is a naive (wall clock) \<^verbatim>\<open>pandas.Timestamp\<close> /
  \<^verbatim>\<open>datetime\<close>. It is modelled as the number of microseconds since
  1970-01-01T00:00:00 (the resolution of \<^verbatim>\<open>datetime\<close>; a nanosecond field of a
  pandas timestamp is taken to be zero). \<^verbatim>\<open>NaT\<close> / \<^verbatim>\<open>None\<close> is \<open>None\<close>.
  A \<^verbatim>\<open>timedelta\<close> is a number of microseconds, a date is a day number
  (days since 1970-01-01) and a time of day is the number of microseconds since midnight.
\<close>

type_synonym instant = int
type_synonym timedelta = int
type_synonym date = int
type_synonym time_of_day = int

definition usec_per_day :: int where
  "usec_per_day = 86400000000"

definition minutes :: "int \<Rightarrow> timedelta" where
  "minutes m = m * 60000000"

definition date_of :: "instant \<Rightarrow> date" where
  "date_of t = t div usec_per_day"

definition time_of :: "instant \<Rightarrow> time_of_day" where
  "time_of t = t mod usec_per_day"

text \<open>\<^verbatim>\<open>timestamp.weekday()\<close>: Monday is 0, Sunday is 6; 1970-01-01 was a Thursday.\<close>

definition weekday :: "instant \<Rightarrow> int" where
  "weekday t = (date_of t + 3) mod 7"

definition hms :: "int \<Rightarrow> int \<Rightarrow> int \<Rightarrow> time_of_day" where
  "hms h m s = ((h * 60 + m) * 60 + s) * 1000000"

text \<open>
  The holiday calendar (\<^verbatim>\<open>holidays.India(years=...)\<close>) is an external collaborator:
  it is a parameter of the model, a map from a date to the holiday's name.
  \<^verbatim>\<open>date in ind_holidays\<close> is \<open>hol d \<noteq> None\<close>; the empty \<^verbatim>\<open>set()\<close> the source uses
  when a batch has no year is the empty map.
\<close>

type_synonym holidays = "date \<rightharpoonup> string"

section \<open>Validation rules and configuration (\<^verbatim>\<open>DataManager.__init__\<close>)\<close>

record trading_hours_cfg =
  th_start :: "time_of_day option"
  th_end :: "time_of_day option"

record validation_rules =
  price_min :: rat
  price_max :: rat
  volume_min :: int
  ohlc_logic :: bool
  time_sequence :: bool
  duplicate_check :: bool
  quality_threshold :: rat
  trading_hours :: "trading_hours_cfg option"
  check_holidays :: "bool option"

text \<open>
  The fields read with \<^verbatim>\<open>.get(key, default)\<close> are options: \<open>None\<close> is a missing key.
  The times of day are the parsed values of the strings of the source.
\<close>

record config =
  data_validation_enabled :: "bool option"
  batch_size :: "int option"

text \<open>The rules and the configuration that \<^verbatim>\<open>DataManager.__init__\<close> builds (lines 30-54).\<close>

definition dm_validation_rules :: validation_rules where
  "dm_validation_rules =
     \<lparr> price_min = 1 / 10, price_max = 200000, volume_min = 0,
       ohlc_logic = True, time_sequence = True, duplicate_check = True,
       quality_threshold = 95 / 100,
       trading_hours = Some \<lparr> th_start = Some (hms 9 15 0), th_end = Some (hms 15 30 0) \<rparr>,
       check_holidays = Some True \<rparr>"

definition dm_config :: config where
  "dm_config = \<lparr> data_validation_enabled = Some True, batch_size = Some 5000 \<rparr>"

text \<open>
  \<^verbatim>\<open>pd.Timestamp(rules.get('trading_hours', {}).get('start', '09:15:00')).time()\<close> and
  the same for \<^verbatim>\<open>'end'\<close> with the fallback \<^verbatim>\<open>'15:29:00'\<close>.
\<close>

definition trading_start :: "validation_rules \<Rightarrow> time_of_day" where
  "trading_start rules =
     (case trading_hours rules of
        None \<Rightarrow> hms 9 15 0
      | Some th \<Rightarrow> (case th_start th of None \<Rightarrow> hms 9 15 0 | Some s \<Rightarrow> s))"

definition trading_end :: "validation_rules \<Rightarrow> time_of_day" where
  "trading_end rules =
     (case trading_hours rules of
        None \<Rightarrow> hms 15 29 0
      | Some th \<Rightarrow> (case th_end th of None \<Rightarrow> hms 15 29 0 | Some e \<Rightarrow> e))"

section \<open>The trading calendar (\<^verbatim>\<open>DataValidator._is_trading_time\<close>)\<close>

definition is_trading_time ::
  "instant option \<Rightarrow> time_of_day \<Rightarrow> time_of_day \<Rightarrow> holidays \<Rightarrow> bool" where
  "is_trading_time timestamp t_start t_end ind_holidays =
     (case timestamp of
        None \<Rightarrow> False
      | Some t \<Rightarrow>
          if weekday t \<ge> 5 then False
          else if ind_holidays (date_of t) \<noteq> None then False
          else t_start \<le> time_of t \<and> time_of t \<le> t_end)"

section \<open>Bars and frames\<close>

text \<open>
  A batch is a \<^verbatim>\<open>pandas.DataFrame\<close>: the list of its column names and its rows in
  positional order. Every row carries its index label (an integer: the frames of this
  repository are built from lists of records and keep their integer labels through
  \<^verbatim>\<open>drop_duplicates\<close>, boolean masks and \<^verbatim>\<open>sort_values\<close>). A field of a row has a
  meaning only when the column of that name is among the columns of the frame; reading
  a column that is absent raises \<^verbatim>\<open>KeyError\<close>. Prices are rationals (the source's
  floats without \<^verbatim>\<open>NaN\<close> and without rounding).
\<close>

record row =
  bar_label :: int
  bar_timestamp :: "instant option"
  bar_open :: rat
  bar_high :: rat
  bar_low :: rat
  bar_close :: rat
  bar_volume :: int

record frame =
  columns :: "string list"
  rows :: "row list"

text \<open>\<^verbatim>\<open>data.empty\<close>: some axis has length zero.\<close>

definition empty_frame :: "frame \<Rightarrow> bool" where
  "empty_frame data \<longleftrightarrow> rows data = [] \<or> columns data = []"

text \<open>Exceptions of the source, each with its message (\<^verbatim>\<open>str(e)\<close>).\<close>

datatype exn = KeyError string | ValueError string | IndexError string

fun str_exn :: "exn \<Rightarrow> string" where
  "str_exn (KeyError m) = m"
| "str_exn (ValueError m) = m"
| "str_exn (IndexError m) = m"

section \<open>The read-through cache (\<^verbatim>\<open>DataManager\<close> caching helpers)\<close>

text \<open>
  The two dictionaries \<^verbatim>\<open>_cache\<close> and \<^verbatim>\<open>_cache_timestamps\<close> are association lists
  in insertion order, which is the order a Python \<^verbatim>\<open>dict\<close> iterates in:
  \<^verbatim>\<open>d[k] = v\<close> is \<^const>\<open>AList.update\<close> (in place for a key that is present, at the end
  for a new one) and \<^verbatim>\<open>d.pop(k, None)\<close> is \<^const>\<open>AList.delete\<close>. Every call runs under
  \<^verbatim>\<open>_cache_lock\<close>, so a call is one atomic step on the state. The readings of the clock
  (\<^verbatim>\<open>datetime.now()\<close>) are parameters.
\<close>

record cache_state =
  cache :: "(string \<times> (instant \<times> frame)) list"
  cache_timestamps :: "(string \<times> instant) list"
  cache_hits :: nat
  cache_misses :: nat
  max_cache_age :: timedelta

definition init_cache :: cache_state where
  "init_cache = \<lparr> cache = [], cache_timestamps = [], cache_hits = 0, cache_misses = 0,
                  max_cache_age = minutes 5 \<rparr>"

definition get_from_cache :: "string \<Rightarrow> instant \<Rightarrow> cache_state \<Rightarrow> frame option \<times> cache_state" where
  "get_from_cache key now s =
     (case map_of (cache s) key of
        Some (cache_time, data) \<Rightarrow>
          if now - cache_time < max_cache_age s
          then (Some data, s\<lparr>cache_hits := cache_hits s + 1\<rparr>)
          else (None, s\<lparr>cache := AList.delete key (cache s),
                         cache_timestamps := AList.delete key (cache_timestamps s),
                         cache_misses := cache_misses s + 1\<rparr>)
      | None \<Rightarrow> (None, s\<lparr>cache_misses := cache_misses s + 1\<rparr>))"

text \<open>
  \<^verbatim>\<open>min(d.keys(), key=lambda k: d[k])\<close>: the first key, in iteration order, whose value is
  minimal; \<^verbatim>\<open>ValueError\<close> on an empty dictionary.
\<close>

fun py_min_from :: "'k \<times> int \<Rightarrow> ('k \<times> int) list \<Rightarrow> 'k" where
  "py_min_from best [] = fst best"
| "py_min_from best (p # ps) = py_min_from (if snd p < snd best then p else best) ps"

definition py_min_key :: "('k \<times> int) list \<Rightarrow> exn + 'k" where
  "py_min_key d =
     (case d of
        [] \<Rightarrow> Inl (ValueError ''min() arg is an empty sequence'')
      | p # ps \<Rightarrow> Inr (py_min_from p ps))"

text \<open>
  \<^verbatim>\<open>_store_in_cache\<close> reads the clock twice: \<open>now1\<close> goes into \<^verbatim>\<open>_cache\<close> and \<open>now2\<close>
  into \<^verbatim>\<open>_cache_timestamps\<close>.
\<close>

definition store_in_cache ::
  "string \<Rightarrow> frame \<Rightarrow> instant \<Rightarrow> instant \<Rightarrow> cache_state \<Rightarrow> exn + cache_state" where
  "store_in_cache key data now1 now2 s =
     (let c = AList.update key (now1, data) (cache s);
          ts = AList.update key now2 (cache_timestamps s)
      in if length c > 500
         then (case py_min_key ts of
                 Inl e \<Rightarrow> Inl e
               | Inr oldest_key \<Rightarrow>
                   Inr (s\<lparr>cache := AList.delete oldest_key c,
                          cache_timestamps := AList.delete oldest_key ts\<rparr>))
         else Inr (s\<lparr>cache := c, cache_timestamps := ts\<rparr>))"

text \<open>\<^verbatim>\<open>symbol in k\<close> on strings: \<open>symbol\<close> occurs in \<open>k\<close> as a contiguous substring.\<close>

fun py_in :: "string \<Rightarrow> string \<Rightarrow> bool" where
  "py_in s [] = (s = [])"
| "py_in s (c # cs) = (take (length s) (c # cs) = s \<or> py_in s cs)"

definition pop_all :: "'k list \<Rightarrow> ('k \<times> 'v) list \<Rightarrow> ('k \<times> 'v) list" where
  "pop_all ks d = fold AList.delete ks d"

definition invalidate_cache :: "string \<Rightarrow> cache_state \<Rightarrow> cache_state" where
  "invalidate_cache symbol s =
     (let keys_to_remove = filter (\<lambda>k. py_in symbol k) (map fst (cache s))
      in s\<lparr>cache := pop_all keys_to_remove (cache s),
            cache_timestamps := pop_all keys_to_remove (cache_timestamps s)\<rparr>)"

text \<open>One pass of the background sweep (the body of the loop of \<^verbatim>\<open>cleanup_cache\<close>).\<close>

definition cleanup_cache :: "instant \<Rightarrow> cache_state \<Rightarrow> cache_state" where
  "cleanup_cache now s =
     (let expired = map fst (filter (\<lambda>(k, (t, _)). now - t > max_cache_age s) (cache s))
      in s\<lparr>cache := pop_all expired (cache s),
            cache_timestamps := pop_all expired (cache_timestamps s)\<rparr>)"

definition close_cache :: "cache_state \<Rightarrow> cache_state" where
  "close_cache s = s\<lparr>cache := [], cache_timestamps := []\<rparr>"

text \<open>
  The states the cache can be in: whatever sequence of the operations above ran since
  the manager was constructed.
\<close>

inductive reachable :: "cache_state \<Rightarrow> bool" where
  r_init: "reachable init_cache"
| r_get: "reachable s \<Longrightarrow> reachable (snd (get_from_cache key now s))"
| r_store: "reachable s \<Longrightarrow> store_in_cache key data now1 now2 s = Inr s' \<Longrightarrow> reachable s'"
| r_invalidate: "reachable s \<Longrightarrow> reachable (invalidate_cache symbol s)"
| r_cleanup: "reachable s \<Longrightarrow> reachable (cleanup_cache now s)"
| r_close: "reachable s \<Longrightarrow> reachable (close_cache s)"

text \<open>
  The dictionaries are well formed (one entry per key), hold the same keys, and there
  are at most 500 keys.
\<close>

definition cache_inv :: "cache_state \<Rightarrow> bool" where
  "cache_inv s \<longleftrightarrow>
     distinct (map fst (cache s)) \<and> distinct (map fst (cache_timestamps s)) \<and>
     fst ` set (cache s) = fst ` set (cache_timestamps s) \<and> length (cache s) \<le> 500"

section \<open>Sample cache states\<close>

text \<open>
  An empty frame as payload, pairwise distinct keys, the cache after \<open>n\<close> stores of
  distinct keys at the instants \<open>0, 1, \<dots>\<close>, and the cache after one store.
\<close>

definition demo_frame :: frame where
  "demo_frame = \<lparr> columns = [], rows = [] \<rparr>"

definition demo_key :: "nat \<Rightarrow> string" where
  "demo_key i = replicate i (CHR ''k'')"

fun fill_cache :: "nat \<Rightarrow> cache_state" where
  "fill_cache 0 = init_cache"
| "fill_cache (Suc n) =
     (case store_in_cache (demo_key n) demo_frame (int n) (int n) (fill_cache n) of
        Inr s' \<Rightarrow> s'
      | Inl e \<Rightarrow> fill_cache n)"

definition one_entry :: cache_state where
  "one_entry = \<lparr> cache = [(''latest_TCS_100'', (0, demo_frame))],
                 cache_timestamps = [(''latest_TCS_100'', 0)],
                 cache_hits = 0, cache_misses = 0, max_cache_age = minutes 5 \<rparr>"

section \<open>Rendering values in messages\<close>

text \<open>
  The issue strings of the validator are f-strings over counts, column names and times
  of day; these functions are \<^verbatim>\<open>str\<close> on a non-negative integer, \<^verbatim>\<open>repr\<close> on a string
  and on a list of strings, \<^verbatim>\<open>strftime('%H:%M')\<close> and \<^verbatim>\<open>strftime('%A')\<close>.
\<close>

definition digit_char :: "nat \<Rightarrow> char" where
  "digit_char d = ''0123456789'' ! (d mod 10)"

fun show_nat :: "nat \<Rightarrow> string" where
  "show_nat n = (if n < 10 then [digit_char n] else show_nat (n div 10) @ [digit_char (n mod 10)])"

declare show_nat.simps [simp del]

definition py_repr :: "string \<Rightarrow> string" where
  "py_repr s = [CHR 0x27] @ s @ [CHR 0x27]"

fun join_comma :: "string list \<Rightarrow> string" where
  "join_comma [] = []"
| "join_comma [s] = s"
| "join_comma (s # t # ss) = s @ '', '' @ join_comma (t # ss)"

definition py_repr_list :: "string list \<Rightarrow> string" where
  "py_repr_list ss = ''['' @ join_comma (map py_repr ss) @ '']''"

definition strftime_HM :: "time_of_day \<Rightarrow> string" where
  "strftime_HM t =
     (let h = nat (t div 3600000000); m = nat ((t div 60000000) mod 60)
      in [digit_char (h div 10), digit_char h] @ '':'' @ [digit_char (m div 10), digit_char m])"

definition day_name :: "instant \<Rightarrow> string" where
  "day_name t =
     [''Monday'', ''Tuesday'', ''Wednesday'', ''Thursday'', ''Friday'', ''Saturday'', ''Sunday'']
       ! nat (weekday t)"

section \<open>The quality report\<close>

text \<open>
  The entries of \<^verbatim>\<open>timestamp_details\<close>. A non-trading instant is recorded with its
  reason: a weekend with the name of the day, a holiday with the name of the holiday.
\<close>

datatype non_trading = Weekend instant string | Holiday instant string

record gap_detail =
  gap_start :: "instant option"
  gap_end :: "instant option"
  gap_duration_minutes :: int
  missing_intervals :: int
  expected_interval_minutes :: int

record missing_minute =
  missing_timestamp :: instant
  prev_timestamp :: instant
  next_timestamp :: instant
  minute_gap_duration :: int

record timestamp_details =
  non_trading_timestamps :: "non_trading list"
  non_trading_ohlcv_data :: "(non_trading \<times> row) list"
  missing_interval_timestamps :: "instant list"
  gap_details :: "gap_detail list"
  missing_consecutive_minutes :: "missing_minute list"

definition no_details :: timestamp_details where
  "no_details = \<lparr> non_trading_timestamps = [], non_trading_ohlcv_data = [],
                   missing_interval_timestamps = [], gap_details = [],
                   missing_consecutive_minutes = [] \<rparr>"

text \<open>
  The fourth component of a report is a dictionary: \<^verbatim>\<open>{}\<close> (no key at all) on the
  paths that return it literally, the five lists otherwise.
\<close>

datatype details = EmptyDict | Details timestamp_details

text \<open>
  What \<^verbatim>\<open>DataValidator.validate_data_quality\<close> returns is a Python tuple. Its
  annotation is a 4-tuple; the statement at line 103 returns three values.
\<close>

datatype py_tuple =
    Tuple3 bool "string list" rat
  | Tuple4 bool "string list" rat details

fun tuple_valid :: "py_tuple \<Rightarrow> bool" where
  "tuple_valid (Tuple3 v i s) = v"
| "tuple_valid (Tuple4 v i s d) = v"

fun tuple_issues :: "py_tuple \<Rightarrow> string list" where
  "tuple_issues (Tuple3 v i s) = i"
| "tuple_issues (Tuple4 v i s d) = i"

fun tuple_score :: "py_tuple \<Rightarrow> rat" where
  "tuple_score (Tuple3 v i s) = s"
| "tuple_score (Tuple4 v i s d) = s"

text \<open>
  The records the validator and its host emit: the validator's warning
  (\<^verbatim>\<open>_log_data_quality_issues\<close>), its error record in the exception handler, and the row
  that \<^verbatim>\<open>DataManager._log_quality\<close> adds to the quality log table (with its severity).
  Output of \<^verbatim>\<open>print\<close> is not modelled.
\<close>

datatype log_record =
    QualityWarning string "string list" rat
  | ValidationError string
  | QualityLogRow string "string list" rat nat

fun is_quality_record :: "log_record \<Rightarrow> bool" where
  "is_quality_record (QualityWarning sy i s) = True"
| "is_quality_record (ValidationError m) = False"
| "is_quality_record (QualityLogRow sy i s sev) = True"

text \<open>The working state of one validation: the three accumulators of the source.\<close>

record vstate =
  issues :: "string list"
  quality_scores :: "rat list"
  ts_details :: timestamp_details

definition init_vstate :: vstate where
  "init_vstate = \<lparr> issues = [], quality_scores = [], ts_details = no_details \<rparr>"

definition add_issue :: "string \<Rightarrow> vstate \<Rightarrow> vstate" where
  "add_issue msg st = st\<lparr>issues := issues st @ [msg]\<rparr>"

definition add_score :: "rat \<Rightarrow> vstate \<Rightarrow> vstate" where
  "add_score q st = st\<lparr>quality_scores := quality_scores st @ [q]\<rparr>"

text \<open>\<^verbatim>\<open>max(0, 1 - (k / len(data)))\<close>.\<close>

definition ratio_score :: "nat \<Rightarrow> nat \<Rightarrow> rat" where
  "ratio_score k n = max 0 (1 - of_nat k / of_nat n)"

text \<open>
  The pattern shared by most checks: a positive count adds an issue and the score
  \<open>ratio_score k n\<close>, a zero count adds the score 1.
\<close>

definition count_check :: "nat \<Rightarrow> string \<Rightarrow> nat \<Rightarrow> vstate \<Rightarrow> vstate" where
  "count_check k msg n st =
     (if k > 0 then add_score (ratio_score k n) (add_issue msg st) else add_score 1 st)"

definition count_where :: "('a \<Rightarrow> bool) \<Rightarrow> 'a list \<Rightarrow> nat" where
  "count_where P xs = length (filter P xs)"

text \<open>\<^verbatim>\<open>data[c]\<close> for each \<open>c\<close> in turn: the first absent column raises \<^verbatim>\<open>KeyError\<close>.\<close>

fun read_columns :: "frame \<Rightarrow> string list \<Rightarrow> exn + unit" where
  "read_columns data [] = Inr ()"
| "read_columns data (c # cs) =
     (if c \<in> set (columns data) then read_columns data cs else Inl (KeyError (py_repr c)))"

section \<open>The checks of \<^verbatim>\<open>DataValidator.validate_data_quality\<close>, in source order\<close>

definition required_columns :: "string list" where
  "required_columns = [''timestamp'', ''open'', ''high'', ''low'', ''close'', ''volume'']"

text \<open>Lines 93-99: the structural check.\<close>

definition structure_check :: "frame \<Rightarrow> vstate \<Rightarrow> vstate" where
  "structure_check data st =
     (let missing_columns = filter (\<lambda>c. c \<notin> set (columns data)) required_columns
      in if missing_columns \<noteq> []
         then add_score 0 (add_issue (''Missing columns: '' @ py_repr_list missing_columns) st)
         else add_score 1 st)"

text \<open>Lines 106-129: OHLC consistency, when the rule \<^verbatim>\<open>ohlc_logic\<close> is on.\<close>

definition ohlc_check :: "validation_rules \<Rightarrow> frame \<Rightarrow> vstate \<Rightarrow> exn + vstate" where
  "ohlc_check rules data st =
     (if ohlc_logic rules then
        (case read_columns data [''high'', ''open'', ''close'', ''low''] of
           Inl e \<Rightarrow> Inl e
         | Inr _ \<Rightarrow>
            (let high_violations = count_where
                   (\<lambda>r. bar_high r < bar_open r \<or> bar_high r < bar_close r \<or> bar_high r < bar_low r)
                   (rows data);
                 low_violations = count_where
                   (\<lambda>r. bar_low r > bar_open r \<or> bar_low r > bar_close r \<or> bar_low r > bar_high r)
                   (rows data);
                 ohlc_violations = high_violations + low_violations
             in Inr (count_check ohlc_violations
                       (''OHLC logic violations: '' @ show_nat ohlc_violations)
                       (length (rows data)) st)))
      else Inr st)"

text \<open>
  Lines 132-144: the price band, column by column; the four factors are multiplied
  into one score.
\<close>

definition price_column :: "string \<Rightarrow> row \<Rightarrow> rat" where
  "price_column c r =
     (if c = ''open'' then bar_open r else if c = ''high'' then bar_high r
      else if c = ''low'' then bar_low r else bar_close r)"

fun price_loop ::
  "validation_rules \<Rightarrow> frame \<Rightarrow> string list \<Rightarrow> rat \<Rightarrow> vstate \<Rightarrow> exn + (rat \<times> vstate)" where
  "price_loop rules data [] price_quality st = Inr (price_quality, st)"
| "price_loop rules data (c # cs) price_quality st =
     (case read_columns data [c] of
        Inl e \<Rightarrow> Inl e
      | Inr _ \<Rightarrow>
         (let out_of_range = count_where
                (\<lambda>r. price_column c r < price_min rules \<or> price_column c r > price_max rules)
                (rows data)
          in if out_of_range > 0
             then price_loop rules data cs
                    (price_quality * ratio_score out_of_range (length (rows data)))
                    (add_issue (c @ '' out of range: '' @ show_nat out_of_range @ '' bars'') st)
             else price_loop rules data cs price_quality st))"

definition price_check :: "validation_rules \<Rightarrow> frame \<Rightarrow> vstate \<Rightarrow> exn + vstate" where
  "price_check rules data st =
     (case price_loop rules data [''open'', ''high'', ''low'', ''close''] 1 st of
        Inl e \<Rightarrow> Inl e
      | Inr (price_quality, st') \<Rightarrow> Inr (add_score price_quality st'))"

text \<open>Lines 147-152: the volume floor.\<close>

definition volume_check :: "validation_rules \<Rightarrow> frame \<Rightarrow> vstate \<Rightarrow> exn + vstate" where
  "volume_check rules data st =
     (case read_columns data [''volume''] of
        Inl e \<Rightarrow> Inl e
      | Inr _ \<Rightarrow>
         (let negative_volume = count_where (\<lambda>r. bar_volume r < volume_min rules) (rows data)
          in Inr (count_check negative_volume
                    (''Invalid volume: '' @ show_nat negative_volume @ '' bars'')
                    (length (rows data)) st)))"

text \<open>Lines 155-175: membership in the trading window, when there is a timestamp column.\<close>

definition hours_check :: "validation_rules \<Rightarrow> frame \<Rightarrow> vstate \<Rightarrow> vstate" where
  "hours_check rules data st =
     (let t_start = trading_start rules; t_end = trading_end rules;
          invalid_hours = count_where
            (\<lambda>r. case bar_timestamp r of
                    None \<Rightarrow> False
                  | Some t \<Rightarrow> time_of t < t_start \<or> time_of t > t_end)
            (rows data)
      in count_check invalid_hours
           (''Timestamps outside trading hours ('' @ strftime_HM t_start @ ''-''
              @ strftime_HM t_end @ ''): '' @ show_nat invalid_hours)
           (length (rows data)) st)"

text \<open>
  The set \<^verbatim>\<open>years\<close> of the source is not empty exactly when some timestamp of the
  batch is not null.
\<close>

definition years_present :: "frame \<Rightarrow> bool" where
  "years_present data \<longleftrightarrow> filter (\<lambda>r. bar_timestamp r \<noteq> None) (rows data) \<noteq> []"

text \<open>Lines 190-231: one pass over the rows, counting and recording weekends and holidays.\<close>

fun non_trading_loop ::
  "holidays \<Rightarrow> row list \<Rightarrow> nat \<times> timestamp_details \<Rightarrow> nat \<times> timestamp_details" where
  "non_trading_loop ind_holidays [] acc = acc"
| "non_trading_loop ind_holidays (r # rs) (non_trading_days, d) =
     non_trading_loop ind_holidays rs
       (case bar_timestamp r of
          None \<Rightarrow> (non_trading_days, d)
        | Some t \<Rightarrow>
            if weekday t \<ge> 5
            then (non_trading_days + 1,
                  d\<lparr>non_trading_timestamps := non_trading_timestamps d @ [Weekend t (day_name t)],
                    non_trading_ohlcv_data :=
                      non_trading_ohlcv_data d @ [(Weekend t (day_name t), r)]\<rparr>)
            else (case ind_holidays (date_of t) of
                    Some holiday_name \<Rightarrow>
                      (non_trading_days + 1,
                       d\<lparr>non_trading_timestamps :=
                           non_trading_timestamps d @ [Holiday t holiday_name],
                         non_trading_ohlcv_data :=
                           non_trading_ohlcv_data d @ [(Holiday t holiday_name, r)]\<rparr>)
                  | None \<Rightarrow> (non_trading_days, d)))"

text \<open>Lines 178-238: the weekend and holiday check (\<^verbatim>\<open>check_holidays\<close> defaults to true).\<close>

definition holiday_check :: "validation_rules \<Rightarrow> holidays \<Rightarrow> frame \<Rightarrow> vstate \<Rightarrow> vstate" where
  "holiday_check rules ind_holidays data st =
     (if check_holidays rules \<noteq> Some False \<and> years_present data then
        (case non_trading_loop ind_holidays (rows data) (0, ts_details st) of
           (non_trading_days, d) \<Rightarrow>
             count_check non_trading_days
               (''Data on non-trading days (weekends/holidays): '' @ show_nat non_trading_days)
               (length (rows data)) (st\<lparr>ts_details := d\<rparr>))
      else st)"

section \<open>Sorting, differences and the expected interval\<close>

text \<open>
  \<^verbatim>\<open>data.sort_values('timestamp')\<close>: ascending, the null timestamps last, every row
  keeping its label. Rows of equal timestamp keep their order (the sort is taken to be
  stable).
\<close>

definition ts_key :: "row \<Rightarrow> instant" where
  "ts_key r = (case bar_timestamp r of Some t \<Rightarrow> t | None \<Rightarrow> 0)"

definition sort_values :: "frame \<Rightarrow> frame" where
  "sort_values data =
     data\<lparr>rows := sort_key ts_key (filter (\<lambda>r. bar_timestamp r \<noteq> None) (rows data))
                    @ filter (\<lambda>r. bar_timestamp r = None) (rows data)\<rparr>"

text \<open>
  \<^verbatim>\<open>series.diff().dropna()\<close> on the timestamp column: the difference of every row to
  the row before it, under the label of the later row; differences with a null operand
  (and the one of the first row) are dropped.
\<close>

fun diff_dropna :: "row list \<Rightarrow> (int \<times> timedelta) list" where
  "diff_dropna (p # c # rs) =
     (case (bar_timestamp p, bar_timestamp c) of
        (Some a, Some b) \<Rightarrow> [(bar_label c, b - a)]
      | _ \<Rightarrow> []) @ diff_dropna (c # rs)"
| "diff_dropna rs = []"

text \<open>\<^verbatim>\<open>_get_trading_data_only\<close> (lines 37-47).\<close>

definition get_trading_data_only ::
  "frame \<Rightarrow> time_of_day \<Rightarrow> time_of_day \<Rightarrow> holidays \<Rightarrow> frame" where
  "get_trading_data_only data t_start t_end ind_holidays =
     (if ''timestamp'' \<notin> set (columns data) then data
      else data\<lparr>rows := filter (\<lambda>r. is_trading_time (bar_timestamp r) t_start t_end ind_holidays)
                             (rows data)\<rparr>)"

text \<open>
  \<^verbatim>\<open>series.mode()\<close>: the values of greatest frequency, in ascending order;
  \<^verbatim>\<open>.iloc[0]\<close> then takes the least of them.
\<close>

definition max_count :: "'a list \<Rightarrow> nat" where
  "max_count xs = fold max (map (count_list xs) xs) 0"

definition mode :: "int list \<Rightarrow> int list" where
  "mode xs = sort (remdups (filter (\<lambda>x. count_list xs x = max_count xs) xs))"

text \<open>\<^verbatim>\<open>_calculate_expected_trading_intervals\<close> (lines 49-72).\<close>

definition calculate_expected_trading_intervals ::
  "frame \<Rightarrow> time_of_day \<Rightarrow> time_of_day \<Rightarrow> holidays \<Rightarrow> timedelta option \<times> nat" where
  "calculate_expected_trading_intervals data_sorted t_start t_end ind_holidays =
     (if length (rows data_sorted) < 2 then (None, 0)
      else
        let trading_data = get_trading_data_only data_sorted t_start t_end ind_holidays
        in if length (rows trading_data) < 2 then (None, 0)
           else
             let time_diffs = map snd (diff_dropna (rows trading_data))
             in if length time_diffs = 0 then (None, 0)
                else (case mode time_diffs of
                        expected_interval # _ \<Rightarrow> (Some expected_interval, length (rows trading_data))
                      | [] \<Rightarrow> (None, 0)))"

text \<open>
  \<^verbatim>\<open>frame.iloc[i]\<close> with an integer: the row at position \<open>i\<close>, counted from the end
  when \<open>i\<close> is negative; \<^verbatim>\<open>IndexError\<close> out of range.
\<close>

definition iloc :: "row list \<Rightarrow> int \<Rightarrow> exn + row" where
  "iloc rs i =
     (let n = int (length rs); j = (if i < 0 then n + i else i)
      in if 0 \<le> j \<and> j < n then Inr (rs ! nat j)
         else Inl (IndexError ''single positional indexer is out-of-bounds''))"

text \<open>\<^verbatim>\<open>int(x)\<close> on a float: truncation towards zero.\<close>

definition py_int :: "rat \<Rightarrow> int" where
  "py_int q = (if q < 0 then - \<lfloor>- q\<rfloor> else \<lfloor>q\<rfloor>)"

text \<open>
  Python floats. A float is the rational it denotes; \<open>fl x\<close> is the binary64 number
  nearest to \<open>x\<close>, ties to the even significand (53 bits; overflow and subnormal
  numbers are beyond the magnitudes of durations and are not modelled). Every float
  operation of the source that feeds a truncation is the exact operation followed by
  \<open>fl\<close>.
\<close>

fun bit_length :: "nat \<Rightarrow> nat" where
  "bit_length n = (if n = 0 then 0 else Suc (bit_length (n div 2)))"

declare bit_length.simps [simp del]

definition pow2 :: "int \<Rightarrow> rat" where
  "pow2 k = (if k \<ge> 0 then 2 ^ nat k else 1 / 2 ^ nat (- k))"

text \<open>For \<open>a > 0\<close>: the \<open>e\<close> with \<open>pow2 e \<le> a < pow2 (e + 1)\<close>.\<close>

definition binary_exponent :: "rat \<Rightarrow> int" where
  "binary_exponent a =
     (case quotient_of a of
        (p, q) \<Rightarrow>
          (let k = int (bit_length (nat p)) - int (bit_length (nat q))
           in if pow2 k \<le> a then k else k - 1))"

definition round_half_even :: "rat \<Rightarrow> int" where
  "round_half_even q =
     (let f = \<lfloor>q\<rfloor>; r = q - of_int f
      in if r < 1 / 2 then f else if r > 1 / 2 then f + 1
         else if even f then f else f + 1)"

definition fl :: "rat \<Rightarrow> rat" where
  "fl x =
     (if x = 0 then 0
      else
        (let a = \<bar>x\<bar>; u = pow2 (binary_exponent a - 52)
         in sgn x * of_int (round_half_even (a / u)) * u))"

text \<open>
  \<^verbatim>\<open>delta.total_seconds()\<close>, as pandas 2 computes it:
  \<^verbatim>\<open>days * 24 * 3600 + seconds + microseconds / 1_000_000\<close>, an integer plus a
  float.
\<close>

definition total_seconds :: "timedelta \<Rightarrow> rat" where
  "total_seconds d = fl (fl (of_int (d div 1000000)) + fl (of_int (d mod 1000000) / 1000000))"

section \<open>Gap detection and the consecutive-minute check\<close>

text \<open>
  Line 294: the tolerance factor. The comparison \<^verbatim>\<open>time_diffs > expected_interval * tolerance\<close>
  is taken over the rationals; the quotients of seconds below (lines 309, 325, 327 and
  389) are float operations, as in the source.
\<close>

definition tolerance :: "timedelta \<Rightarrow> rat" where
  "tolerance expected_interval = (if expected_interval \<le> minutes 1 then 11 / 10 else 3 / 2)"

text \<open>
  Lines 306-328: the loop over the large gaps. \<open>gap_idx\<close> is the index label of the
  row a difference belongs to; the source uses it as a position of \<^verbatim>\<open>trading_data\<close>.
\<close>

fun gap_loop ::
  "timedelta \<Rightarrow> row list \<Rightarrow> (int \<times> timedelta) list \<Rightarrow> int \<times> nat \<times> gap_detail list
     \<Rightarrow> exn + (int \<times> nat \<times> gap_detail list)" where
  "gap_loop expected_interval trading_rows [] acc = Inr acc"
| "gap_loop expected_interval trading_rows ((gap_idx, gap) # gs)
       (missing_total, actual_gap_count, gds) =
     (if total_seconds expected_interval > 0 then
        (let gap_missing = py_int (fl (fl (total_seconds gap / total_seconds expected_interval) - 1))
         in if gap_missing > 0 \<and> gap_missing \<le> 1000 then
              (case iloc trading_rows gap_idx of
                 Inl e \<Rightarrow> Inl e
               | Inr r1 \<Rightarrow>
                  (case iloc trading_rows (gap_idx + 1) of
                     Inl e \<Rightarrow> Inl e
                   | Inr r2 \<Rightarrow>
                       gap_loop expected_interval trading_rows gs
                         (missing_total + gap_missing, actual_gap_count + 1,
                          gds @ [\<lparr> gap_start = bar_timestamp r1, gap_end = bar_timestamp r2,
                                   gap_duration_minutes = py_int (fl (total_seconds gap / 60)),
                                   missing_intervals = gap_missing,
                                   expected_interval_minutes =
                                     py_int (fl (total_seconds expected_interval / 60)) \<rparr>])))
            else gap_loop expected_interval trading_rows gs
                   (missing_total, actual_gap_count, gds))
      else gap_loop expected_interval trading_rows gs (missing_total, actual_gap_count, gds))"

text \<open>
  Lines 265-348. \<^verbatim>\<open>if expected_interval and trading_data_count > 1\<close> holds for an
  interval that is neither \<^verbatim>\<open>None\<close> nor zero. Each of the three \<^verbatim>\<open>else\<close> branches
  appends the score 1.
\<close>

definition gap_check :: "validation_rules \<Rightarrow> holidays \<Rightarrow> frame \<Rightarrow> vstate \<Rightarrow> exn + vstate" where
  "gap_check rules hol data_sorted st =
     (if length (rows data_sorted) > 1 then
        (let t_start = trading_start rules; t_end = trading_end rules;
             ind_holidays = (if years_present data_sorted then hol else Map.empty)
         in case calculate_expected_trading_intervals data_sorted t_start t_end ind_holidays of
              (Some expected_interval, trading_data_count) \<Rightarrow>
                if expected_interval \<noteq> 0 \<and> trading_data_count > 1 then
                  (let trading_data = sort_values
                         (get_trading_data_only data_sorted t_start t_end ind_holidays);
                       time_diffs = diff_dropna (rows trading_data)
                   in if length time_diffs > 0 then
                        (let large_gaps = filter
                               (\<lambda>(l, d). of_int d > of_int expected_interval * tolerance expected_interval)
                               time_diffs
                         in if length large_gaps > 0 then
                              (case gap_loop expected_interval (rows trading_data) large_gaps
                                      (0, 0, gap_details (ts_details st)) of
                                 Inl e \<Rightarrow> Inl e
                               | Inr (missing, actual_gap_count, gds) \<Rightarrow>
                                  (let max_reasonable_missing =
                                         min (int trading_data_count div 2) 10000;
                                       missing' = min missing max_reasonable_missing;
                                       st' = st\<lparr>ts_details := (ts_details st)\<lparr>gap_details := gds\<rparr>\<rparr>;
                                       msg = ''Missing time intervals (trading hours only): ''
                                              @ show_nat actual_gap_count @ '' gaps detected''
                                   in Inr (add_score (ratio_score actual_gap_count trading_data_count)
                                        (add_issue
                                          (if missing' > 0
                                           then msg @ '' ('' @ show_nat (nat missing')
                                                  @ '' missing data points)''
                                           else msg) st'))))
                            else Inr (add_score 1 st))
                      else Inr (add_score 1 st))
                else Inr (add_score 1 st)
            | (None, trading_data_count) \<Rightarrow> Inr (add_score 1 st))
      else Inr st)"

text \<open>\<^verbatim>\<open>t.replace(second=0, microsecond=0)\<close>.\<close>

definition floor_minute :: "instant \<Rightarrow> instant" where
  "floor_minute t = t - t mod 60000000"

text \<open>
  Lines 374-400: the loop over the consecutive pairs of trading rows; the count of
  missing minutes of a pair is positive whenever it is added.
\<close>

fun minute_loop :: "row list \<Rightarrow> nat \<times> missing_minute list \<Rightarrow> nat \<times> missing_minute list" where
  "minute_loop (p # c # rs) (consecutive_minutes, ms) =
     minute_loop (c # rs)
       (case (bar_timestamp p, bar_timestamp c) of
          (Some prev_time, Some curr_time) \<Rightarrow>
            if date_of prev_time = date_of curr_time then
              (let prev_minute = floor_minute prev_time;
                   curr_minute = floor_minute curr_time;
                   expected_next_minute = prev_minute + minutes 1
               in if curr_minute > expected_next_minute then
                    (let missing_minutes =
                           py_int (fl (total_seconds (curr_minute - expected_next_minute) / 60))
                     in (consecutive_minutes + nat missing_minutes,
                         ms @ map (\<lambda>j. \<lparr> missing_timestamp = expected_next_minute + minutes (j - 1),
                                         prev_timestamp = prev_time, next_timestamp = curr_time,
                                         minute_gap_duration = missing_minutes \<rparr>)
                                [1..missing_minutes]))
                  else (consecutive_minutes, ms))
            else (consecutive_minutes, ms)
        | _ \<Rightarrow> (consecutive_minutes, ms))"
| "minute_loop rs acc = acc"

text \<open>
  Lines 351-409. The check runs only when the least of the first ten differences of
  the sorted batch is at most two minutes; otherwise it appends nothing.
\<close>

definition minute_check :: "validation_rules \<Rightarrow> holidays \<Rightarrow> frame \<Rightarrow> vstate \<Rightarrow> vstate" where
  "minute_check rules hol data_sorted st =
     (if length (rows data_sorted) > 1 then
        (case take 10 (map snd (diff_dropna (rows data_sorted))) of
           [] \<Rightarrow> st
         | d # ds \<Rightarrow>
            if fold min ds d \<le> minutes 2 then
              (let t_start = trading_start rules; t_end = trading_end rules;
                   ind_holidays = (if years_present data_sorted then hol else Map.empty);
                   trading_data = sort_values
                     (get_trading_data_only data_sorted t_start t_end ind_holidays)
               in if length (rows trading_data) > 1 then
                    (case minute_loop (rows trading_data)
                            (0, missing_consecutive_minutes (ts_details st)) of
                       (consecutive_minutes, ms) \<Rightarrow>
                         count_check consecutive_minutes
                           (''Missing consecutive minutes within trading hours: ''
                              @ show_nat consecutive_minutes @ '' missing minute intervals'')
                           (length (rows trading_data))
                           (st\<lparr>ts_details := (ts_details st)\<lparr>missing_consecutive_minutes := ms\<rparr>\<rparr>))
                  else add_score 1 st)
            else st)
      else st)"

section \<open>The whole validation\<close>

definition try_bind :: "exn + 'a \<Rightarrow> ('a \<Rightarrow> exn + 'b) \<Rightarrow> exn + 'b" where
  "try_bind m f = (case m of Inl e \<Rightarrow> Inl e | Inr x \<Rightarrow> f x)"

text \<open>
  Lines 241-409: null timestamps, the order of the sequence, the gaps and the
  consecutive minutes, when the rule \<^verbatim>\<open>time_sequence\<close> is on, the batch has more than
  one row and there is a timestamp column.
\<close>

definition time_sequence_check ::
  "validation_rules \<Rightarrow> holidays \<Rightarrow> frame \<Rightarrow> vstate \<Rightarrow> exn + vstate" where
  "time_sequence_check rules hol data st =
     (if time_sequence rules \<and> length (rows data) > 1 then
        (if ''timestamp'' \<in> set (columns data) then
           (let total_missing = count_where (\<lambda>r. bar_timestamp r = None) (rows data);
                st1 = count_check total_missing
                        (''Missing timestamps: '' @ show_nat total_missing)
                        (length (rows data)) st;
                data_sorted = sort_values data;
                time_errors = count_where (\<lambda>(l, d). d \<le> 0) (diff_dropna (rows data_sorted));
                st2 = count_check time_errors
                        (''Time sequence errors: '' @ show_nat time_errors)
                        (length (rows data)) st1
            in try_bind (gap_check rules hol data_sorted st2)
                 (\<lambda>st3. Inr (minute_check rules hol data_sorted st3)))
         else Inr st)
      else Inr st)"

text \<open>
  Lines 412-419: \<^verbatim>\<open>data.duplicated(subset=['timestamp']).sum()\<close> counts the rows whose
  timestamp occurred in an earlier row.
\<close>

definition duplicate_check_rows :: "validation_rules \<Rightarrow> frame \<Rightarrow> vstate \<Rightarrow> vstate" where
  "duplicate_check_rows rules data st =
     (if duplicate_check rules \<and> ''timestamp'' \<in> set (columns data) then
        (let duplicates = length (rows data) - length (remdups (map bar_timestamp (rows data)))
         in count_check duplicates (''Duplicate timestamps: '' @ show_nat duplicates)
              (length (rows data)) st)
      else st)"

text \<open>Lines 105-419: every check after the test for an empty batch.\<close>

definition run_checks :: "validation_rules \<Rightarrow> holidays \<Rightarrow> frame \<Rightarrow> vstate \<Rightarrow> exn + vstate" where
  "run_checks rules hol data st0 =
     try_bind (ohlc_check rules data st0) (\<lambda>st1.
     try_bind (price_check rules data st1) (\<lambda>st2.
     try_bind (volume_check rules data st2) (\<lambda>st3.
     try_bind (time_sequence_check rules hol data
                 (if ''timestamp'' \<in> set (columns data)
                  then holiday_check rules hol data (hours_check rules data st3)
                  else st3)) (\<lambda>st5.
     Inr (duplicate_check_rows rules data st5)))))"

text \<open>\<^verbatim>\<open>np.mean(quality_scores) if quality_scores else 0.0\<close>.\<close>

definition mean_score :: "rat list \<Rightarrow> rat" where
  "mean_score qs = (if qs \<noteq> [] then sum_list qs / of_nat (length qs) else 0)"

text \<open>The truth value of \<^verbatim>\<open>symbol\<close>, an optional string.\<close>

definition truthy :: "string option \<Rightarrow> bool" where
  "truthy symbol = (case symbol of None \<Rightarrow> False | Some s \<Rightarrow> s \<noteq> [])"

text \<open>
  \<^verbatim>\<open>DataValidator.validate_data_quality\<close> (lines 74-437): the returned tuple and the
  records emitted. The holiday calendar is the parameter \<open>hol\<close>.
\<close>

definition validate_data_quality ::
  "config \<Rightarrow> validation_rules \<Rightarrow> holidays \<Rightarrow> frame \<Rightarrow> string option \<Rightarrow> bool
     \<Rightarrow> py_tuple \<times> log_record list" where
  "validate_data_quality cfg rules hol data symbol skip_logging =
     (if data_validation_enabled cfg = Some False then (Tuple4 True [] 1 EmptyDict, [])
      else
        let st0 = structure_check data init_vstate
        in if empty_frame data
           then (Tuple3 False (issues (add_issue ''Empty dataset'' st0)) 0, [])
           else
             (case run_checks rules hol data st0 of
                Inl e \<Rightarrow>
                  (Tuple4 False [''Validation failed: '' @ str_exn e] 0 EmptyDict,
                   [ValidationError (str_exn e)])
              | Inr st \<Rightarrow>
                  (let overall_quality = mean_score (quality_scores st);
                       is_valid = (overall_quality \<ge> quality_threshold rules)
                   in (Tuple4 is_valid (issues st) overall_quality (Details (ts_details st)),
                       if issues st \<noteq> [] \<and> truthy symbol \<and> \<not> skip_logging
                       then [QualityWarning (the symbol) (issues st) overall_quality]
                       else []))))"

section \<open>\<^verbatim>\<open>DataManager.validate_data_quality\<close> and \<^verbatim>\<open>DataManager.store_ohlcv_data\<close>\<close>

text \<open>Unpacking a returned tuple into four, respectively three, names.\<close>

fun unpack4 :: "py_tuple \<Rightarrow> exn + (bool \<times> string list \<times> rat \<times> details)" where
  "unpack4 (Tuple4 v i s d) = Inr (v, i, s, d)"
| "unpack4 (Tuple3 v i s) = Inl (ValueError ''not enough values to unpack (expected 4, got 3)'')"

fun unpack3 :: "py_tuple \<Rightarrow> exn + (bool \<times> string list \<times> rat)" where
  "unpack3 (Tuple3 v i s) = Inr (v, i, s)"
| "unpack3 (Tuple4 v i s d) = Inl (ValueError ''too many values to unpack (expected 3)'')"

text \<open>\<^verbatim>\<open>_log_quality\<close>: the severity of the row it adds.\<close>

definition severity :: "rat \<Rightarrow> nat" where
  "severity quality_score =
     (if quality_score > 8 / 10 then 1 else if quality_score > 5 / 10 then 2 else 3)"

text \<open>\<^verbatim>\<open>DataManager.validate_data_quality\<close> (lines 88-96).\<close>

definition dm_validate_data_quality ::
  "config \<Rightarrow> validation_rules \<Rightarrow> holidays \<Rightarrow> frame \<Rightarrow> string option \<Rightarrow> bool
     \<Rightarrow> (exn + py_tuple) \<times> log_record list" where
  "dm_validate_data_quality cfg rules hol data symbol skip_logging =
     (case validate_data_quality cfg rules hol data symbol skip_logging of
        (result, emitted) \<Rightarrow>
          (case unpack4 result of
             Inl e \<Rightarrow> (Inl e, emitted)
           | Inr (is_valid, iss, score, timestamp_details) \<Rightarrow>
               (Inr (Tuple4 is_valid iss score timestamp_details),
                emitted @ (if iss \<noteq> [] \<and> truthy symbol \<and> \<not> skip_logging
                       then [QualityLogRow (the symbol) iss score (severity score)]
                       else []))))"

text \<open>
  The storage backend is an external collaborator: \<open>upsert start_idx retry_attempt\<close>
  tells whether the upsert of the chunk that starts at row \<open>start_idx\<close> commits on that
  attempt (otherwise it raises and the attempt is rolled back). The trace of a call
  records every attempt, every \<^verbatim>\<open>time.sleep\<close> (in seconds) and the two counters of
  the source.
\<close>

record store_state =
  successful_batches :: nat
  failed_batches :: nat
  sleeps :: "nat list"
  attempts :: "(nat \<times> nat) list"

definition init_store_state :: store_state where
  "init_store_state = \<lparr> successful_batches = 0, failed_batches = 0, sleeps = [], attempts = [] \<rparr>"

text \<open>
  Lines 152-178: the retry loop of one chunk, over \<^verbatim>\<open>range(max_retries)\<close>; a commit
  leaves the loop (\<^verbatim>\<open>break\<close>).
\<close>

fun retry_loop :: "(nat \<Rightarrow> bool) \<Rightarrow> nat \<Rightarrow> nat \<Rightarrow> nat list \<Rightarrow> store_state \<Rightarrow> store_state" where
  "retry_loop execute start_idx max_retries [] st = st"
| "retry_loop execute start_idx max_retries (retry_attempt # later) st =
     (let st1 = st\<lparr>attempts := attempts st @ [(start_idx, retry_attempt)]\<rparr>
      in if execute retry_attempt
         then st1\<lparr>successful_batches := successful_batches st1 + 1\<rparr>
         else if retry_attempt < max_retries - 1
         then retry_loop execute start_idx max_retries later
                (st1\<lparr>sleeps := sleeps st1 @ [2 ^ retry_attempt]\<rparr>)
         else retry_loop execute start_idx max_retries later
                (st1\<lparr>failed_batches := failed_batches st1 + 1\<rparr>))"

definition max_retries :: nat where
  "max_retries = 3"

definition store_chunk :: "(nat \<Rightarrow> nat \<Rightarrow> bool) \<Rightarrow> nat \<Rightarrow> store_state \<Rightarrow> store_state" where
  "store_chunk upsert start_idx st =
     retry_loop (upsert start_idx) start_idx max_retries [0..<max_retries] st"

text \<open>\<^verbatim>\<open>range(0, total_rows, batch_size)\<close> for a positive step.\<close>

definition chunk_starts :: "nat \<Rightarrow> nat \<Rightarrow> nat list" where
  "chunk_starts total_rows b = map (\<lambda>i. i * b) [0..<(total_rows + b - 1) div b]"

definition store_batches :: "(nat \<Rightarrow> nat \<Rightarrow> bool) \<Rightarrow> nat list \<Rightarrow> store_state \<Rightarrow> store_state" where
  "store_batches upsert starts st = fold (store_chunk upsert) starts st"

text \<open>\<^verbatim>\<open>data_copy[c] = ...\<close>: the column is added when the frame does not have it.\<close>

definition assign_column :: "string \<Rightarrow> frame \<Rightarrow> frame" where
  "assign_column c data =
     (if c \<in> set (columns data) then data else data\<lparr>columns := columns data @ [c]\<rparr>)"

text \<open>
  What a call of \<^verbatim>\<open>store_ohlcv_data\<close> does: the value it returns or the exception it
  raises, the trace of the chunk loop, the cache afterwards and the records emitted by
  the validation it runs.
\<close>

record store_run =
  returned :: "exn + bool"
  batches :: store_state
  cache_after :: cache_state
  emitted :: "log_record list"

text \<open>
  \<^verbatim>\<open>DataManager.store_ohlcv_data\<close> (lines 98-191). The assignments of the columns
  \<^verbatim>\<open>symbol\<close>, \<^verbatim>\<open>data_source\<close>, \<^verbatim>\<open>sector\<close> and \<^verbatim>\<open>quality_score\<close> change only the list
  of columns. The conversion of the rows of the first chunk to dictionaries (lines
  137-149, outside the \<^verbatim>\<open>try\<close>) reads the fields \<open>row_fields\<close> with \<^verbatim>\<open>r[...]\<close> and
  raises \<^verbatim>\<open>KeyError\<close> on an absent one; the conversions of the values are taken to
  succeed. A negative batch size gives an empty \<^verbatim>\<open>range\<close>, a zero one raises.
\<close>

definition row_fields :: "string list" where
  "row_fields = [''timestamp'', ''symbol'', ''open'', ''high'', ''low'', ''close'', ''volume'']"

definition store_ohlcv_data ::
  "(nat \<Rightarrow> nat \<Rightarrow> bool) \<Rightarrow> config \<Rightarrow> validation_rules \<Rightarrow> holidays \<Rightarrow> cache_state
     \<Rightarrow> frame \<Rightarrow> string \<Rightarrow> bool \<Rightarrow> store_run" where
  "store_ohlcv_data upsert cfg rules hol cs data symbol skip_validation =
     (let quiet = \<lparr> returned = Inr True, batches = init_store_state, cache_after = cs,
                     emitted = [] \<rparr>
      in if empty_frame data then quiet
         else if ''timestamp'' \<notin> set (columns data)
         then quiet\<lparr>returned := Inl (KeyError (py_repr ''timestamp''))\<rparr>
         else
           (let data_copy = assign_column ''data_source'' (assign_column ''symbol'' data);
                checked =
                  (if \<not> skip_validation then
                     (case dm_validate_data_quality cfg rules hol data_copy (Some symbol) False of
                        (Inl e, recs) \<Rightarrow> (Inl e, recs)
                      | (Inr result, recs) \<Rightarrow>
                          (case unpack3 result of
                             Inl e \<Rightarrow> (Inl e, recs)
                           | Inr (is_valid, iss, quality_score) \<Rightarrow> (Inr is_valid, recs)))
                   else (Inr True, []))
            in case checked of
                 (Inl e, recs) \<Rightarrow> quiet\<lparr>returned := Inl e, emitted := recs\<rparr>
               | (Inr False, recs) \<Rightarrow> quiet\<lparr>returned := Inr False, emitted := recs\<rparr>
               | (Inr True, recs) \<Rightarrow>
                  (let step = (case batch_size cfg of None \<Rightarrow> 10000 | Some k \<Rightarrow> k)
                   in if step = 0
                      then quiet\<lparr>returned := Inl (ValueError ''range() arg 3 must not be zero''),
                                 emitted := recs\<rparr>
                      else
                        (let starts = (if step > 0
                                       then chunk_starts (length (rows data_copy)) (nat step)
                                       else [])
                         in case (if starts = [] then Inr ()
                                  else read_columns data_copy row_fields) of
                              Inl e \<Rightarrow> quiet\<lparr>returned := Inl e, emitted := recs\<rparr>
                            | Inr _ \<Rightarrow>
                               (let st = store_batches upsert starts init_store_state
                                in \<lparr> returned = Inr (successful_batches st > 0),
                                      batches = st,
                                      cache_after = (if successful_batches st > 0
                                                     then invalidate_cache symbol cs else cs),
                                      emitted = recs \<rparr>)))))"

section \<open>Sample batches\<close>

text \<open>
  A well-formed bar at an instant, under a label; Monday 2024-01-08 and Saturday
  2024-01-06 at a time of day; a frame with the six required columns.
\<close>

definition bar :: "int \<Rightarrow> instant \<Rightarrow> row" where
  "bar l t = \<lparr> bar_label = l, bar_timestamp = Some t, bar_open = 100, bar_high = 101,
               bar_low = 99, bar_close = 100, bar_volume = 10 \<rparr>"

definition monday :: "int \<Rightarrow> int \<Rightarrow> instant" where
  "monday h m = 19730 * usec_per_day + hms h m 0"

definition saturday :: "int \<Rightarrow> int \<Rightarrow> instant" where
  "saturday h m = 19728 * usec_per_day + hms h m 0"

definition ohlcv_frame :: "row list \<Rightarrow> frame" where
  "ohlcv_frame rs = \<lparr> columns = required_columns, rows = rs \<rparr>"

definition validation_off :: config where
  "validation_off = dm_config\<lparr>data_validation_enabled := Some False\<rparr>"


text \<open>
  Four bars on a Monday, one minute apart but for a hole of five minutes before the
  last one.
\<close>

definition late_gap :: frame where
  "late_gap = ohlcv_frame [bar 0 (monday 9 15), bar 1 (monday 9 16), bar 2 (monday 9 17),
                           bar 3 (monday 9 22)]"

text \<open>
  Storage backends: one that commits every attempt, one that commits none, one that
  commits the third attempt of every chunk and one that commits only the chunk starting
  at row 0; a configuration with chunks of one row; batches of one and of two bars.
\<close>

definition always_commits :: "nat \<Rightarrow> nat \<Rightarrow> bool" where
  "always_commits start_idx retry_attempt = True"





definition one_bar :: frame where
  "one_bar = ohlcv_frame [bar 0 (monday 9 15)]"




section \<open>Properties of the trading calendar\<close>

lemma weekday_range: "0 \<le> weekday t \<and> weekday t < 7"
  by (simp add: weekday_def)

text \<open>
  Claim C4. An instant is classified as trading exactly when its weekday is Monday to
  Friday (0 to 4), its date is not in the holiday set, and its time of day lies in the
  trading window, both ends included; the window that \<^verbatim>\<open>DataManager\<close> configures is
  09:15:00 to 15:30:00; a Saturday or Sunday instant is non-trading whatever its time
  of day.
\<close>

theorem is_trading_time_iff:
  "(is_trading_time (Some t) s e hol \<longleftrightarrow>
      weekday t \<in> {0, 1, 2, 3, 4} \<and> hol (date_of t) = None \<and> s \<le> time_of t \<and> time_of t \<le> e)
   \<and> trading_start dm_validation_rules = hms 9 15 0
   \<and> trading_end dm_validation_rules = hms 15 30 0
   \<and> (weekday t \<in> {5, 6} \<longrightarrow> \<not> is_trading_time (Some t) s' e' hol')
   \<and> \<not> is_trading_time None s e hol"
proof -
  have wd: "weekday t \<in> {0, 1, 2, 3, 4} \<longleftrightarrow> \<not> weekday t \<ge> 5"
    using weekday_range [of t] by auto
  have a: "is_trading_time (Some t) s e hol \<longleftrightarrow>
      weekday t \<in> {0, 1, 2, 3, 4} \<and> hol (date_of t) = None \<and> s \<le> time_of t \<and> time_of t \<le> e"
    unfolding wd by (simp add: is_trading_time_def)
  have b: "trading_start dm_validation_rules = hms 9 15 0"
    by (simp add: trading_start_def dm_validation_rules_def)
  have c: "trading_end dm_validation_rules = hms 15 30 0"
    by (simp add: trading_end_def dm_validation_rules_def)
  have d: "weekday t \<in> {5, 6} \<longrightarrow> \<not> is_trading_time (Some t) s' e' hol'"
    by (auto simp: is_trading_time_def)
  have e: "\<not> is_trading_time None s e hol"
    by (simp add: is_trading_time_def)
  from a b c d e show ?thesis by blast
qed

text \<open>
  Saturday 2024-01-06 10:00:00 is day 19728 of the epoch; Monday 2024-01-08 10:00:00 is
  day 19730. With the configured window and no holiday the Monday instant is trading
  and the Saturday one is not.
\<close>

theorem is_trading_time_iff_witness:
  "is_trading_time (Some (19730 * usec_per_day + hms 10 0 0))
      (trading_start dm_validation_rules) (trading_end dm_validation_rules) Map.empty
   \<and> weekday (19728 * usec_per_day + hms 10 0 0) = 5
   \<and> \<not> is_trading_time (Some (19728 * usec_per_day + hms 10 0 0))
      (trading_start dm_validation_rules) (trading_end dm_validation_rules) Map.empty"
proof -
  have w1: "weekday (19730 * usec_per_day + hms 10 0 0) = 0"
    by (simp add: weekday_def date_of_def usec_per_day_def hms_def)
  have w2: "weekday (19728 * usec_per_day + hms 10 0 0) = 5"
    by (simp add: weekday_def date_of_def usec_per_day_def hms_def)
  have t1: "time_of (19730 * usec_per_day + hms 10 0 0) = hms 10 0 0"
    by (simp add: time_of_def usec_per_day_def hms_def)
  have rng: "hms 9 15 0 \<le> hms 10 0 0 \<and> hms 10 0 0 \<le> hms 15 30 0"
    by (simp add: hms_def)
  note thm1 = is_trading_time_iff [of "19730 * usec_per_day + hms 10 0 0"
      "trading_start dm_validation_rules" "trading_end dm_validation_rules" Map.empty]
  note thm2 = is_trading_time_iff [of "19728 * usec_per_day + hms 10 0 0" _ _ _
      "trading_start dm_validation_rules" "trading_end dm_validation_rules" Map.empty]
  have ws: "trading_start dm_validation_rules = hms 9 15 0"
    and we: "trading_end dm_validation_rules = hms 15 30 0"
    using thm1 by blast+
  have "weekday (19730 * usec_per_day + hms 10 0 0) \<in> {0, 1, 2, 3, 4}
      \<and> Map.empty (date_of (19730 * usec_per_day + hms 10 0 0)) = (None :: string option)
      \<and> trading_start dm_validation_rules \<le> time_of (19730 * usec_per_day + hms 10 0 0)
      \<and> time_of (19730 * usec_per_day + hms 10 0 0) \<le> trading_end dm_validation_rules"
    using rng by (simp add: w1 t1 ws we)
  then have a: "is_trading_time (Some (19730 * usec_per_day + hms 10 0 0))
      (trading_start dm_validation_rules) (trading_end dm_validation_rules) Map.empty"
    using thm1 by blast
  have "weekday (19728 * usec_per_day + hms 10 0 0) \<in> {5, 6}"
    by (simp add: w2)
  then have b: "\<not> is_trading_time (Some (19728 * usec_per_day + hms 10 0 0))
      (trading_start dm_validation_rules) (trading_end dm_validation_rules) Map.empty"
    using thm2 by blast
  from a w2 b show ?thesis by blast
qed

section \<open>Properties of the cache\<close>

lemma py_min_from_spec:
  "\<exists>v. (py_min_from best ps, v) \<in> insert best (set ps) \<and> (\<forall>q \<in> insert best (set ps). v \<le> snd q)"
proof (induction ps arbitrary: best)
  case Nil
  show ?case by (cases best) auto
next
  case (Cons p ps)
  let ?b = "if snd p < snd best then p else best"
  from Cons.IH [of ?b] obtain v where
    v: "(py_min_from ?b ps, v) \<in> insert ?b (set ps)" "\<forall>q \<in> insert ?b (set ps). v \<le> snd q"
    by blast
  have "v \<le> snd ?b" using v(2) by blast
  then have "v \<le> snd p" "v \<le> snd best" by (auto split: if_splits)
  with v show ?case
    by (intro exI [of _ v]) (auto split: if_splits)
qed

lemma py_min_key_spec:
  assumes "d \<noteq> []"
  shows "\<exists>k v. py_min_key d = Inr k \<and> (k, v) \<in> set d \<and> (\<forall>q \<in> set d. v \<le> snd q)"
proof (cases d)
  case Nil
  with assms show ?thesis by simp
next
  case (Cons p ps)
  from py_min_from_spec [of p ps] obtain v where
    "(py_min_from p ps, v) \<in> insert p (set ps)" "\<forall>q \<in> insert p (set ps). v \<le> snd q"
    by blast
  with Cons show ?thesis by (auto simp: py_min_key_def)
qed

lemma update_nonempty: "AList.update k v al \<noteq> []"
  by (cases al) auto

lemma length_update_new:
  "k \<notin> fst ` set al \<Longrightarrow> length (AList.update k v al) = Suc (length al)"
  by (induction al) auto

lemma length_update_old:
  "k \<in> fst ` set al \<Longrightarrow> length (AList.update k v al) = length al"
  by (induction al) auto

lemma length_update_le: "length (AList.update k v al) \<le> Suc (length al)"
  by (induction al) auto

lemma keys_delete: "fst ` set (AList.delete k al) = fst ` set al - {k}"
  by (induction al) (auto simp: AList.delete_eq)

lemma delete_notin: "k \<notin> fst ` set al \<Longrightarrow> AList.delete k al = al"
  by (induction al) (auto simp: AList.delete_eq)

lemma length_delete_in:
  "distinct (map fst al) \<Longrightarrow> k \<in> fst ` set al \<Longrightarrow> Suc (length (AList.delete k al)) = length al"
proof (induction al)
  case Nil
  then show ?case by simp
next
  case (Cons p al)
  show ?case
  proof (cases "fst p = k")
    case True
    with Cons.prems have "k \<notin> fst ` set al" by auto
    then have "AList.delete k al = al" by (rule delete_notin)
    with True show ?thesis by (cases p) simp
  next
    case False
    with Cons.prems have "k \<in> fst ` set al" "distinct (map fst al)" by auto
    with Cons.IH have "Suc (length (AList.delete k al)) = length al" by blast
    with False show ?thesis by (cases p) auto
  qed
qed

lemma distinct_pop_all: "distinct (map fst d) \<Longrightarrow> distinct (map fst (pop_all ks d))"
  unfolding pop_all_def by (induction ks arbitrary: d) (auto simp: AList.distinct_delete)

lemma keys_pop_all: "fst ` set (pop_all ks d) = fst ` set d - set ks"
  unfolding pop_all_def by (induction ks arbitrary: d) (auto simp: keys_delete)

lemma length_pop_all: "length (pop_all ks d) \<le> length d"
  unfolding pop_all_def
proof (induction ks arbitrary: d)
  case Nil
  show ?case by simp
next
  case (Cons k ks)
  have "length (fold AList.delete ks (AList.delete k d)) \<le> length (AList.delete k d)"
    by (rule Cons.IH)
  also have "\<dots> \<le> length d" by (rule AList.length_delete_le)
  finally show ?case by simp
qed

lemma cache_inv_init: "cache_inv init_cache"
  by (simp add: cache_inv_def init_cache_def)

lemma cache_inv_get: "cache_inv s \<Longrightarrow> cache_inv (snd (get_from_cache key now s))"
  unfolding cache_inv_def get_from_cache_def
  using AList.length_delete_le [of key "cache s"]
  by (auto simp: AList.distinct_delete keys_delete split: option.splits prod.splits)

lemma cache_inv_invalidate: "cache_inv s \<Longrightarrow> cache_inv (invalidate_cache symbol s)"
  unfolding cache_inv_def invalidate_cache_def Let_def
  using length_pop_all [of _ "cache s"]
  by (auto simp: distinct_pop_all keys_pop_all intro: order_trans)

lemma cache_inv_cleanup: "cache_inv s \<Longrightarrow> cache_inv (cleanup_cache now s)"
  unfolding cache_inv_def cleanup_cache_def Let_def
  using length_pop_all [of _ "cache s"]
  by (auto simp: distinct_pop_all keys_pop_all intro: order_trans)

lemma cache_inv_close: "cache_inv s \<Longrightarrow> cache_inv (close_cache s)"
  by (simp add: cache_inv_def close_cache_def)


lemma cache_inv_store:
  assumes "cache_inv s"
  shows "\<exists>s'. store_in_cache key data now1 now2 s = Inr s' \<and> cache_inv s'"
proof -
  let ?c = "AList.update key (now1, data) (cache s)"
  let ?ts = "AList.update key now2 (cache_timestamps s)"
  from assms have dc: "distinct (map fst ?c)" and dts: "distinct (map fst ?ts)"
    by (simp_all add: cache_inv_def AList.distinct_update)
  from assms have keys: "fst ` set ?c = fst ` set ?ts"
    by (simp add: cache_inv_def AList.dom_update)
  from assms have len: "length ?c \<le> 501"
    using length_update_le [of key "(now1, data)" "cache s"] by (simp add: cache_inv_def)
  show ?thesis
  proof (cases "length ?c > 500")
    case False
    with dc dts keys show ?thesis
      by (simp add: store_in_cache_def cache_inv_def)
  next
    case True
    from py_min_key_spec [OF update_nonempty [of key now2 "cache_timestamps s"]]
    obtain k v where k: "py_min_key ?ts = Inr k" "(k, v) \<in> set ?ts" by blast
    from k(2) have "k \<in> fst ` set ?ts" by force
    with keys have kin: "k \<in> fst ` set ?c" by simp
    from length_delete_in [OF dc kin] len have "length (AList.delete k ?c) \<le> 500" by simp
    with True k(1) dc dts keys show ?thesis
      by (simp add: store_in_cache_def cache_inv_def AList.distinct_delete keys_delete)
  qed
qed

lemma reachable_inv: "reachable s \<Longrightarrow> cache_inv s \<and> max_cache_age s = minutes 5"
proof (induction rule: reachable.induct)
  case r_init
  show ?case by (simp add: cache_inv_init) (simp add: init_cache_def)
next
  case (r_get s key now)
  then show ?case
    by (auto simp: cache_inv_get) (auto simp: get_from_cache_def split: option.splits)
next
  case (r_store s key data now1 now2 s')
  from cache_inv_store [of s key data now1 now2] r_store
  have "cache_inv s'" by auto
  moreover from r_store have "max_cache_age s' = minutes 5"
    by (auto simp: store_in_cache_def Let_def split: if_splits sum.splits)
  ultimately show ?case by simp
next
  case (r_invalidate s symbol)
  then show ?case
    by (auto simp: cache_inv_invalidate) (simp add: invalidate_cache_def Let_def)
next
  case (r_cleanup s now)
  then show ?case
    by (auto simp: cache_inv_cleanup) (simp add: cleanup_cache_def Let_def)
next
  case (r_close s)
  then show ?case
    by (auto simp: cache_inv_close) (simp add: close_cache_def)
qed

lemma store_new_key_evicts:
  assumes inv: "cache_inv s" and full: "length (cache s) = 500"
    and new: "key \<notin> fst ` set (cache s)"
  shows "\<exists>s' oldest t_old.
      store_in_cache key data now1 now2 s = Inr s' \<and>
      map_of (AList.update key now2 (cache_timestamps s)) oldest = Some t_old \<and>
      (\<forall>k t. map_of (AList.update key now2 (cache_timestamps s)) k = Some t \<longrightarrow> t_old \<le> t) \<and>
      length (cache s') = 500 \<and>
      fst ` set (cache s') = insert key (fst ` set (cache s)) - {oldest} \<and>
      fst ` set (cache_timestamps s') = fst ` set (cache s') \<and>
      map_of (cache s') oldest = None \<and>
      (\<forall>k. k \<noteq> oldest \<longrightarrow>
         map_of (cache s') k = (if k = key then Some (now1, data) else map_of (cache s) k))"
proof -
  let ?c = "AList.update key (now1, data) (cache s)"
  let ?ts = "AList.update key now2 (cache_timestamps s)"
  from inv have dc: "distinct (map fst ?c)" and dts: "distinct (map fst ?ts)"
    by (simp_all add: cache_inv_def AList.distinct_update)
  from inv have keys: "fst ` set ?c = fst ` set ?ts"
    by (simp add: cache_inv_def AList.dom_update)
  from full new have len: "length ?c = 501" by (simp add: length_update_new)
  from py_min_key_spec [OF update_nonempty [of key now2 "cache_timestamps s"]]
  obtain k v where k: "py_min_key ?ts = Inr k" "(k, v) \<in> set ?ts" "\<forall>q \<in> set ?ts. v \<le> snd q"
    by blast
  from k(2) have "k \<in> fst ` set ?ts" by force
  with keys have kin: "k \<in> fst ` set ?c" by simp
  let ?s' = "s\<lparr>cache := AList.delete k ?c, cache_timestamps := AList.delete k ?ts\<rparr>"
  have st: "store_in_cache key data now1 now2 s = Inr ?s'"
    using len k(1) by (simp add: store_in_cache_def)
  have m1: "map_of ?ts k = Some v" using dts k(2) by simp
  have m2: "\<forall>k' t. map_of ?ts k' = Some t \<longrightarrow> v \<le> t"
    using k(3) by (auto dest!: map_of_SomeD)
  have l: "length (cache ?s') = 500"
    using length_delete_in [OF dc kin] len by simp
  have ks: "fst ` set (cache ?s') = insert key (fst ` set (cache s)) - {k}"
    by (simp add: keys_delete AList.dom_update)
  have kt: "fst ` set (cache_timestamps ?s') = fst ` set (cache ?s')"
    using keys by (simp add: keys_delete)
  have gone: "map_of (cache ?s') k = None"
    by (simp add: AList.delete_conv')
  have rest: "\<forall>k'. k' \<noteq> k \<longrightarrow>
         map_of (cache ?s') k' = (if k' = key then Some (now1, data) else map_of (cache s) k')"
    by (simp add: AList.delete_conv' AList.update_conv')
  from st m1 m2 l ks kt gone rest show ?thesis by blast
qed

lemma update_append_new: "k \<notin> fst ` set al \<Longrightarrow> AList.update k v al = al @ [(k, v)]"
  by (induction al) auto

lemma fill_cache_reachable: "reachable (fill_cache n)"
proof (induction n)
  case 0
  show ?case by (simp add: r_init)
next
  case (Suc n)
  show ?case
  proof (cases "store_in_cache (demo_key n) demo_frame (int n) (int n) (fill_cache n)")
    case (Inl e)
    with Suc show ?thesis by simp
  next
    case (Inr s')
    from r_store [OF Suc Inr] Inr show ?thesis by simp
  qed
qed

lemma demo_key_fresh: "demo_key n \<notin> fst ` set (map (\<lambda>i. (demo_key i, f i)) [0..<n])"
proof
  assume "demo_key n \<in> fst ` set (map (\<lambda>i. (demo_key i, f i)) [0..<n])"
  then obtain i where "i < n" "demo_key n = demo_key i" by auto
  then have "length (demo_key n) = length (demo_key i)" by simp
  with \<open>i < n\<close> show False by (simp add: demo_key_def)
qed

lemma fill_cache_contents:
  "n \<le> 500 \<Longrightarrow>
     cache (fill_cache n) = map (\<lambda>i. (demo_key i, (int i, demo_frame))) [0..<n] \<and>
     cache_timestamps (fill_cache n) = map (\<lambda>i. (demo_key i, int i)) [0..<n]"
proof (induction n)
  case 0
  show ?case by (simp add: init_cache_def)
next
  case (Suc n)
  then have c: "cache (fill_cache n) = map (\<lambda>i. (demo_key i, (int i, demo_frame))) [0..<n]"
    and t: "cache_timestamps (fill_cache n) = map (\<lambda>i. (demo_key i, int i)) [0..<n]"
    and n: "n < 500" by simp_all
  have uc: "AList.update (demo_key n) (int n, demo_frame) (cache (fill_cache n))
      = map (\<lambda>i. (demo_key i, (int i, demo_frame))) [0..<Suc n]"
    unfolding c using demo_key_fresh [of n "\<lambda>i. (int i, demo_frame)"]
    by (simp add: update_append_new)
  have ut: "AList.update (demo_key n) (int n) (cache_timestamps (fill_cache n))
      = map (\<lambda>i. (demo_key i, int i)) [0..<Suc n]"
    unfolding t using demo_key_fresh [of n int]
    by (simp add: update_append_new)
  have "store_in_cache (demo_key n) demo_frame (int n) (int n) (fill_cache n)
      = Inr ((fill_cache n)\<lparr>cache := map (\<lambda>i. (demo_key i, (int i, demo_frame))) [0..<Suc n],
                             cache_timestamps := map (\<lambda>i. (demo_key i, int i)) [0..<Suc n]\<rparr>)"
    unfolding store_in_cache_def uc ut using n by (simp add: Let_def)
  then show ?case by simp
qed

lemma fill_cache_length: "n \<le> 500 \<Longrightarrow> length (cache (fill_cache n)) = n"
  by (simp add: fill_cache_contents)

lemma fill_cache_fresh: "n \<le> 500 \<Longrightarrow> demo_key n \<notin> fst ` set (cache (fill_cache n))"
  using demo_key_fresh [of n "\<lambda>i. (int i, demo_frame)"] by (simp add: fill_cache_contents)

text \<open>
  Claim C6. \<^verbatim>\<open>_get_from_cache\<close> returns the stored snapshot, and adds one to the hit
  counter, exactly when the key is present and the age of its entry is strictly less
  than the maximum age, which is 5 minutes from construction on; on a stale entry the
  entry is deleted from both dictionaries, the other entries stay, nothing is returned
  and the miss counter goes up by one; on an absent key nothing is returned and the miss
  counter goes up by one.
\<close>

theorem get_from_cache_spec:
  "max_cache_age init_cache = minutes 5
   \<and> (reachable s \<longrightarrow> max_cache_age s = minutes 5)
   \<and> (fst (get_from_cache key now s) \<noteq> None \<longleftrightarrow>
        (\<exists>t d. map_of (cache s) key = Some (t, d) \<and> now - t < max_cache_age s))
   \<and> (\<forall>t d. map_of (cache s) key = Some (t, d) \<and> now - t < max_cache_age s \<longrightarrow>
        get_from_cache key now s = (Some d, s\<lparr>cache_hits := cache_hits s + 1\<rparr>))
   \<and> (\<forall>t d. map_of (cache s) key = Some (t, d) \<and> \<not> now - t < max_cache_age s \<longrightarrow>
        (\<exists>s'. get_from_cache key now s = (None, s') \<and>
          map_of (cache s') key = None \<and> map_of (cache_timestamps s') key = None \<and>
          (\<forall>k. k \<noteq> key \<longrightarrow> map_of (cache s') k = map_of (cache s) k) \<and>
          cache_misses s' = cache_misses s + 1 \<and> cache_hits s' = cache_hits s))
   \<and> (map_of (cache s) key = None \<longrightarrow>
        get_from_cache key now s = (None, s\<lparr>cache_misses := cache_misses s + 1\<rparr>))"
proof -
  have a: "max_cache_age init_cache = minutes 5" by (simp add: init_cache_def)
  have b: "reachable s \<longrightarrow> max_cache_age s = minutes 5" using reachable_inv by blast
  have c: "fst (get_from_cache key now s) \<noteq> None \<longleftrightarrow>
        (\<exists>t d. map_of (cache s) key = Some (t, d) \<and> now - t < max_cache_age s)"
    by (auto simp: get_from_cache_def split: option.splits)
  have d: "\<forall>t d. map_of (cache s) key = Some (t, d) \<and> now - t < max_cache_age s \<longrightarrow>
        get_from_cache key now s = (Some d, s\<lparr>cache_hits := cache_hits s + 1\<rparr>)"
    by (simp add: get_from_cache_def)
  have e: "\<forall>t d. map_of (cache s) key = Some (t, d) \<and> \<not> now - t < max_cache_age s \<longrightarrow>
        (\<exists>s'. get_from_cache key now s = (None, s') \<and>
          map_of (cache s') key = None \<and> map_of (cache_timestamps s') key = None \<and>
          (\<forall>k. k \<noteq> key \<longrightarrow> map_of (cache s') k = map_of (cache s) k) \<and>
          cache_misses s' = cache_misses s + 1 \<and> cache_hits s' = cache_hits s)"
    by (simp add: get_from_cache_def AList.delete_conv')
  have f: "map_of (cache s) key = None \<longrightarrow>
        get_from_cache key now s = (None, s\<lparr>cache_misses := cache_misses s + 1\<rparr>)"
    by (simp add: get_from_cache_def)
  from a b c d e f show ?thesis by blast
qed

text \<open>A hit within the window, a miss at exactly 5 minutes of age, and a miss on an absent key.\<close>

theorem get_from_cache_spec_witness:
  "store_in_cache ''latest_TCS_100'' demo_frame 0 0 init_cache = Inr one_entry
   \<and> reachable one_entry \<and> max_cache_age one_entry = minutes 5
   \<and> get_from_cache ''latest_TCS_100'' (minutes 4) one_entry
       = (Some demo_frame, one_entry\<lparr>cache_hits := 1\<rparr>)
   \<and> fst (get_from_cache ''latest_TCS_100'' (minutes 5) one_entry) = None
   \<and> get_from_cache ''latest_INFY_100'' (minutes 4) one_entry
       = (None, one_entry\<lparr>cache_misses := 1\<rparr>)"
proof -
  have st: "store_in_cache ''latest_TCS_100'' demo_frame 0 0 init_cache = Inr one_entry"
    by (simp add: store_in_cache_def init_cache_def one_entry_def)
  have m: "map_of (cache one_entry) ''latest_TCS_100'' = Some (0, demo_frame)"
    by (simp add: one_entry_def)
  have m': "map_of (cache one_entry) ''latest_INFY_100'' = None"
    by (simp add: one_entry_def)
  have age: "minutes 4 - 0 < max_cache_age one_entry" "\<not> minutes 5 - 0 < max_cache_age one_entry"
    by (simp_all add: one_entry_def minutes_def)
  have z: "cache_hits one_entry + 1 = 1" "cache_misses one_entry + 1 = 1"
    by (simp_all add: one_entry_def)
  note T1 = get_from_cache_spec [of one_entry "''latest_TCS_100''" "minutes 4"]
  note T2 = get_from_cache_spec [of one_entry "''latest_TCS_100''" "minutes 5"]
  note T3 = get_from_cache_spec [of one_entry "''latest_INFY_100''" "minutes 4"]
  have a: "get_from_cache ''latest_TCS_100'' (minutes 4) one_entry
       = (Some demo_frame, one_entry\<lparr>cache_hits := 1\<rparr>)"
    using T1 [THEN conjunct2, THEN conjunct2, THEN conjunct2, THEN conjunct1, rule_format,
        OF conjI [OF m age(1)]]
    by (simp only: z)
  have "\<exists>s'. get_from_cache ''latest_TCS_100'' (minutes 5) one_entry = (None, s')"
    using T2 [THEN conjunct2, THEN conjunct2, THEN conjunct2, THEN conjunct2, THEN conjunct1,
        rule_format, OF conjI [OF m age(2)]]
    by (elim exE conjE) (rule exI)
  then have b: "fst (get_from_cache ''latest_TCS_100'' (minutes 5) one_entry) = None"
    by (elim exE) simp
  have c: "get_from_cache ''latest_INFY_100'' (minutes 4) one_entry
       = (None, one_entry\<lparr>cache_misses := 1\<rparr>)"
    using T3 [THEN conjunct2, THEN conjunct2, THEN conjunct2, THEN conjunct2, THEN conjunct2,
        rule_format, OF m']
    by (simp only: z)
  have r: "reachable one_entry" by (rule r_store [OF r_init st])
  have ma: "max_cache_age one_entry = minutes 5"
    using T1 [THEN conjunct2, THEN conjunct1] r by blast
  from st r ma a b c show ?thesis by (intro conjI)
qed

text \<open>
  Claim C7. In every state the cache can reach it holds at most 500 entries, and every
  \<^verbatim>\<open>_store_in_cache\<close> returns normally in a state with at most 500 entries; storing
  a new key into a cache of 500 entries evicts exactly one entry, one whose insertion
  time in \<^verbatim>\<open>_cache_timestamps\<close> is the least of all (the new key included), and every
  other entry is as it was, the new key being bound to the new snapshot.
\<close>

theorem store_in_cache_bound:
  "(reachable s \<longrightarrow>
      length (cache s) \<le> 500 \<and>
      (\<exists>s'. store_in_cache key data now1 now2 s = Inr s' \<and> reachable s' \<and> length (cache s') \<le> 500))
   \<and> (reachable s \<and> length (cache s) = 500 \<and> key \<notin> fst ` set (cache s) \<longrightarrow>
        (\<exists>s' oldest t_old.
           store_in_cache key data now1 now2 s = Inr s' \<and>
           map_of (AList.update key now2 (cache_timestamps s)) oldest = Some t_old \<and>
           (\<forall>k t. map_of (AList.update key now2 (cache_timestamps s)) k = Some t \<longrightarrow> t_old \<le> t) \<and>
           length (cache s') = 500 \<and>
           fst ` set (cache s') = insert key (fst ` set (cache s)) - {oldest} \<and>
           fst ` set (cache_timestamps s') = fst ` set (cache s') \<and>
           map_of (cache s') oldest = None \<and>
           (\<forall>k. k \<noteq> oldest \<longrightarrow>
              map_of (cache s') k = (if k = key then Some (now1, data) else map_of (cache s) k))))"
proof (intro conjI impI)
  assume r: "reachable s"
  then show "length (cache s) \<le> 500"
    using reachable_inv [of s] by (simp add: cache_inv_def)
  from r have "cache_inv s" using reachable_inv by blast
  from cache_inv_store [OF this, of key data now1 now2]
  obtain s' where s': "store_in_cache key data now1 now2 s = Inr s'" "cache_inv s'" by blast
  from r s'(1) have "reachable s'" by (rule r_store)
  with s' show "\<exists>s'. store_in_cache key data now1 now2 s = Inr s' \<and> reachable s' \<and> length (cache s') \<le> 500"
    by (auto simp: cache_inv_def)
next
  assume h: "reachable s \<and> length (cache s) = 500 \<and> key \<notin> fst ` set (cache s)"
  then have "cache_inv s" using reachable_inv by blast
  from store_new_key_evicts [OF this, of key data now1 now2] h
  show "\<exists>s' oldest t_old.
           store_in_cache key data now1 now2 s = Inr s' \<and>
           map_of (AList.update key now2 (cache_timestamps s)) oldest = Some t_old \<and>
           (\<forall>k t. map_of (AList.update key now2 (cache_timestamps s)) k = Some t \<longrightarrow> t_old \<le> t) \<and>
           length (cache s') = 500 \<and>
           fst ` set (cache s') = insert key (fst ` set (cache s)) - {oldest} \<and>
           fst ` set (cache_timestamps s') = fst ` set (cache s') \<and>
           map_of (cache s') oldest = None \<and>
           (\<forall>k. k \<noteq> oldest \<longrightarrow>
              map_of (cache s') k = (if k = key then Some (now1, data) else map_of (cache s) k))"
    by blast
qed

text \<open>The 501st distinct key, stored into the cache that 500 stores of distinct keys built.\<close>

theorem store_in_cache_bound_witness:
  "reachable (fill_cache 500) \<and> length (cache (fill_cache 500)) = 500
   \<and> demo_key 500 \<notin> fst ` set (cache (fill_cache 500))
   \<and> (\<exists>s'. store_in_cache (demo_key 7) demo_frame 500 500 (fill_cache 500) = Inr s' \<and>
        reachable s' \<and> length (cache s') \<le> 500)
   \<and> (\<exists>s' oldest.
        store_in_cache (demo_key 500) demo_frame 500 500 (fill_cache 500) = Inr s' \<and>
        length (cache s') = 500 \<and> map_of (cache s') oldest = None \<and>
        fst ` set (cache s') = insert (demo_key 500) (fst ` set (cache (fill_cache 500))) - {oldest})"
proof -
  have r: "reachable (fill_cache 500)" by (rule fill_cache_reachable)
  have l: "length (cache (fill_cache 500)) = 500"
    by (rule fill_cache_length) simp
  have k: "demo_key 500 \<notin> fst ` set (cache (fill_cache 500))"
    by (rule fill_cache_fresh) simp
  note T = store_in_cache_bound [of "fill_cache 500" "demo_key 500" demo_frame 500 500,
      THEN conjunct2, rule_format, OF conjI [OF r conjI [OF l k]]]
  from T obtain s' oldest where
    a: "store_in_cache (demo_key 500) demo_frame 500 500 (fill_cache 500) = Inr s'"
    and b: "length (cache s') = 500"
    and c: "map_of (cache s') oldest = None"
    and d: "fst ` set (cache s') = insert (demo_key 500) (fst ` set (cache (fill_cache 500))) - {oldest}"
    by (elim exE conjE)
  from a b c d have "\<exists>s' oldest.
        store_in_cache (demo_key 500) demo_frame 500 500 (fill_cache 500) = Inr s' \<and>
        length (cache s') = 500 \<and> map_of (cache s') oldest = None \<and>
        fst ` set (cache s') = insert (demo_key 500) (fst ` set (cache (fill_cache 500))) - {oldest}"
    by (intro exI conjI)
  moreover have "\<exists>s'. store_in_cache (demo_key 7) demo_frame 500 500 (fill_cache 500) = Inr s' \<and>
        reachable s' \<and> length (cache s') \<le> 500"
    using store_in_cache_bound [of "fill_cache 500" "demo_key 7" demo_frame 500 500,
        THEN conjunct1, rule_format, OF r]
    by (elim conjE)
  ultimately show ?thesis using r l k by (intro conjI)
qed

section \<open>Properties of the validator\<close>

text \<open>
  Claim C10. When the configuration flag \<^verbatim>\<open>data_validation_enabled\<close> is false,
  \<^verbatim>\<open>validate_data_quality\<close> returns valid, no issue, the score 1 and the empty
  dictionary for every batch, whatever its rows and columns, and runs no check (it
  emits nothing).
\<close>

theorem validation_disabled:
  "data_validation_enabled cfg = Some False \<Longrightarrow>
     validate_data_quality cfg rules hol data symbol skip_logging = (Tuple4 True [] 1 EmptyDict, [])"
  by (simp add: validate_data_quality_def)

text \<open>An empty frame without columns and a one-row frame without most columns.\<close>

theorem validation_disabled_witness:
  "validate_data_quality validation_off dm_validation_rules Map.empty
      \<lparr> columns = [], rows = [] \<rparr> (Some ''TCS'') False = (Tuple4 True [] 1 EmptyDict, [])
   \<and> validate_data_quality validation_off dm_validation_rules Map.empty
      \<lparr> columns = [''open''], rows = [bar 0 (saturday 3 0)] \<rparr> None True
        = (Tuple4 True [] 1 EmptyDict, [])"
proof -
  have off: "data_validation_enabled validation_off = Some False"
    by (simp add: validation_off_def)
  show ?thesis
    by (intro conjI validation_disabled [OF off])
qed

lemma structure_check_issues:
  "issues (structure_check data st) =
     issues st @ (if filter (\<lambda>c. c \<notin> set (columns data)) required_columns \<noteq> []
                  then [''Missing columns: '' @ py_repr_list
                          (filter (\<lambda>c. c \<notin> set (columns data)) required_columns)]
                  else [])"
  by (simp add: structure_check_def add_issue_def add_score_def Let_def)

text \<open>
  Claim C2, as amended. With validation enabled, a batch with zero bars is reported as
  invalid with score 0, no later check runs and nothing is logged; the issues are
  \<^verbatim>\<open>Empty dataset\<close> alone when the six required columns are present, and the missing
  columns issue followed by \<^verbatim>\<open>Empty dataset\<close> otherwise.
\<close>

theorem empty_batch_report:
  assumes "data_validation_enabled cfg \<noteq> Some False" and "empty_frame data"
  shows "\<not> tuple_valid (fst (validate_data_quality cfg rules hol data symbol skip_logging))
    \<and> tuple_score (fst (validate_data_quality cfg rules hol data symbol skip_logging)) = 0
    \<and> tuple_issues (fst (validate_data_quality cfg rules hol data symbol skip_logging))
         = (if filter (\<lambda>c. c \<notin> set (columns data)) required_columns = []
            then [''Empty dataset'']
            else [''Missing columns: '' @ py_repr_list
                    (filter (\<lambda>c. c \<notin> set (columns data)) required_columns),
                  ''Empty dataset''])
    \<and> snd (validate_data_quality cfg rules hol data symbol skip_logging) = []"
  using assms
  by (simp add: validate_data_quality_def Let_def add_issue_def structure_check_issues
      init_vstate_def)

theorem empty_batch_report_witness:
  "\<not> tuple_valid (fst (validate_data_quality dm_config dm_validation_rules Map.empty
        (ohlcv_frame []) (Some ''TCS'') False))
   \<and> tuple_score (fst (validate_data_quality dm_config dm_validation_rules Map.empty
        (ohlcv_frame []) (Some ''TCS'') False)) = 0
   \<and> tuple_issues (fst (validate_data_quality dm_config dm_validation_rules Map.empty
        (ohlcv_frame []) (Some ''TCS'') False)) = [''Empty dataset'']"
proof -
  have on: "data_validation_enabled dm_config \<noteq> Some False"
    by (simp add: dm_config_def)
  have e: "empty_frame (ohlcv_frame [])"
    by (simp add: empty_frame_def ohlcv_frame_def)
  have c: "filter (\<lambda>c. c \<notin> set (columns (ohlcv_frame []))) required_columns = []"
    by (simp add: ohlcv_frame_def)
  note T = empty_batch_report [OF on e, of dm_validation_rules Map.empty "Some ''TCS''" False]
  from T have "tuple_issues (fst (validate_data_quality dm_config dm_validation_rules Map.empty
        (ohlcv_frame []) (Some ''TCS'') False)) = [''Empty dataset'']"
    by (simp add: c)
  with T show ?thesis by blast
qed

text \<open>
  Claim C2 as stated fails: with validation disabled an empty batch is reported valid,
  and an empty batch without columns gets two issues.
\<close>

theorem empty_batch_counterexample:
  "tuple_valid (fst (validate_data_quality validation_off dm_validation_rules Map.empty
        (ohlcv_frame []) (Some ''TCS'') False))
   \<and> length (tuple_issues (fst (validate_data_quality dm_config dm_validation_rules Map.empty
        \<lparr> columns = [], rows = [] \<rparr> (Some ''TCS'') False))) = 2"
  by (simp add: validate_data_quality_def validation_off_def dm_config_def Let_def
      add_issue_def structure_check_issues init_vstate_def empty_frame_def ohlcv_frame_def
      required_columns_def)

text \<open>
  The report of an empty batch is the 3-tuple of line 103, so the host's unpacking into
  four names (\<^verbatim>\<open>DataManager.validate_data_quality\<close>, line 90) raises.
\<close>

lemma dm_validate_empty_raises:
  assumes "data_validation_enabled cfg \<noteq> Some False" and "empty_frame data"
  shows "fst (dm_validate_data_quality cfg rules hol data symbol skip_logging)
    = Inl (ValueError ''not enough values to unpack (expected 4, got 3)'')"
  using assms
  by (simp add: dm_validate_data_quality_def validate_data_quality_def Let_def)

text \<open>
  Claim C9. The flag \<^verbatim>\<open>skip_logging\<close> changes neither the tuple that
  \<^verbatim>\<open>DataValidator.validate_data_quality\<close> returns nor what
  \<^verbatim>\<open>DataManager.validate_data_quality\<close> returns or raises; the records emitted with the
  flag set are those emitted without it, less the quality records (the validator's
  warning and the row of the quality log).
\<close>

theorem skip_logging_only_logs:
  "fst (validate_data_quality cfg rules hol data symbol True)
     = fst (validate_data_quality cfg rules hol data symbol False)
   \<and> snd (validate_data_quality cfg rules hol data symbol True)
     = filter (\<lambda>r. \<not> is_quality_record r) (snd (validate_data_quality cfg rules hol data symbol False))
   \<and> fst (dm_validate_data_quality cfg rules hol data symbol True)
     = fst (dm_validate_data_quality cfg rules hol data symbol False)
   \<and> snd (dm_validate_data_quality cfg rules hol data symbol True)
     = filter (\<lambda>r. \<not> is_quality_record r) (snd (dm_validate_data_quality cfg rules hol data symbol False))"
proof -
  obtain r l where F: "validate_data_quality cfg rules hol data symbol False = (r, l)"
    by (cases "validate_data_quality cfg rules hol data symbol False")
  have T: "validate_data_quality cfg rules hol data symbol True
      = (r, filter (\<lambda>r. \<not> is_quality_record r) l)"
    using F
    by (auto simp: validate_data_quality_def Let_def split: if_splits sum.splits)
  have a: "fst (dm_validate_data_quality cfg rules hol data symbol True)
     = fst (dm_validate_data_quality cfg rules hol data symbol False)"
    by (cases r) (simp_all add: dm_validate_data_quality_def F T)
  have b: "snd (dm_validate_data_quality cfg rules hol data symbol True)
     = filter (\<lambda>r. \<not> is_quality_record r) (snd (dm_validate_data_quality cfg rules hol data symbol False))"
    by (cases r) (simp_all add: dm_validate_data_quality_def F T)
  from a b show ?thesis by (simp add: F T)
qed

section \<open>Properties of the overall score\<close>


















text \<open>
  Claim C5 fails on the code. On four trading bars at a cadence of one minute with one
  five-minute hole before the last bar, the expected interval is one minute (of four
  trading bars) and the tolerance is 1.1, but reporting the gap reads
  \<^verbatim>\<open>trading_data.iloc[gap_idx + 1]\<close> with the label of the bar after the hole, one past
  the last position: the \<^verbatim>\<open>IndexError\<close> is caught and the validation returns the
  failure report, with no gap recorded.
\<close>

theorem gap_before_last_bar_fails:
  "calculate_expected_trading_intervals (sort_values late_gap)
       (trading_start dm_validation_rules) (trading_end dm_validation_rules) Map.empty
     = (Some (minutes 1), 4)
   \<and> tolerance (minutes 1) = 11 / 10
   \<and> validate_data_quality dm_config dm_validation_rules Map.empty late_gap (Some ''TCS'') False
     = (Tuple4 False [''Validation failed: single positional indexer is out-of-bounds''] 0
          EmptyDict,
        [ValidationError ''single positional indexer is out-of-bounds''])"
  by code_simp

section \<open>Properties of \<^verbatim>\<open>store_ohlcv_data\<close>\<close>

lemma validate_nonempty_is_tuple4:
  "\<not> empty_frame data \<Longrightarrow>
     \<exists>v i s d. fst (validate_data_quality cfg rules hol data symbol skip) = Tuple4 v i s d"
  by (auto simp: validate_data_quality_def Let_def split: sum.splits)

lemma dm_validate_nonempty:
  assumes "\<not> empty_frame data"
  shows "\<exists>v i s d. fst (dm_validate_data_quality cfg rules hol data symbol skip) = Inr (Tuple4 v i s d)"
proof -
  from validate_nonempty_is_tuple4 [OF assms, of cfg rules hol symbol skip]
  obtain v i s d where "fst (validate_data_quality cfg rules hol data symbol skip) = Tuple4 v i s d"
    by blast
  then show ?thesis
    by (cases "validate_data_quality cfg rules hol data symbol skip")
      (simp add: dm_validate_data_quality_def)
qed

lemma assign_column_nonempty: "\<not> empty_frame data \<Longrightarrow> \<not> empty_frame (assign_column c data)"
  by (simp add: empty_frame_def assign_column_def)

lemma store_with_validation_raises:
  assumes "\<not> empty_frame data" and "''timestamp'' \<in> set (columns data)"
  shows "returned (store_ohlcv_data upsert cfg rules hol cs data symbol False)
     = Inl (ValueError ''too many values to unpack (expected 3)'')"
proof -
  let ?dc = "assign_column ''data_source'' (assign_column ''symbol'' data)"
  have "\<not> empty_frame ?dc" using assms(1) by (simp add: assign_column_nonempty)
  from dm_validate_nonempty [OF this, of cfg rules hol "Some symbol" False]
  obtain v i s d recs where
    "dm_validate_data_quality cfg rules hol ?dc (Some symbol) False = (Inr (Tuple4 v i s d), recs)"
    by (cases "dm_validate_data_quality cfg rules hol ?dc (Some symbol) False") auto
  with assms show ?thesis
    by (simp add: store_ohlcv_data_def Let_def)
qed

text \<open>
  Claim C1 fails on the code. A store of a non-empty batch with validation enabled
  (\<^verbatim>\<open>skip_validation\<close> false) unpacks the four values that
  \<^verbatim>\<open>DataManager.validate_data_quality\<close> returns into three names (line 113): the call
  raises \<^verbatim>\<open>ValueError\<close> instead of returning a boolean.
\<close>

theorem store_validated_batch_raises:
  "returned (store_ohlcv_data always_commits dm_config dm_validation_rules Map.empty init_cache
      one_bar ''TCS'' False)
   = Inl (ValueError ''too many values to unpack (expected 3)'')"
proof (rule store_with_validation_raises)
  show "\<not> empty_frame one_bar" by code_simp
  show "''timestamp'' \<in> set (columns one_bar)" by code_simp
qed










end
